theory Spec2Isabelle
  imports Main
begin

section \<open>Values\<close>

text \<open>
  The client moves two kinds of Python values. Request parameters (keyword arguments,
  the form fields built by \<open>add_photo\<close>, the \<open>files\<close> mapping) go out; decoded JSON
  bodies come back. The two never mix in the source, so each gets its own datatype.
  A dict is an association list in insertion order. JSON numbers are integers here:
  the client only tests them for truthiness and passes them on.
\<close>

datatype pyval =
    PNone
  | PBool bool
  | PInt int
  | PStr string
  | PFile string
  | PList "pyval list"
  | PDict "(string \<times> pyval) list"

datatype json =
    JNull
  | JBool bool
  | JInt int
  | JStr string
  | JList "json list"
  | JDict "(string \<times> json) list"

text \<open>Python truthiness, as used by \<open>x or d\<close>, \<open>if imgfile:\<close> and \<open>error and ...\<close>.\<close>

fun truthy :: "pyval \<Rightarrow> bool" where
  "truthy PNone = False"
| "truthy (PBool b) = b"
| "truthy (PInt i) = (i \<noteq> 0)"
| "truthy (PStr s) = (s \<noteq> [])"
| "truthy (PFile p) = True"
| "truthy (PList xs) = (xs \<noteq> [])"
| "truthy (PDict kvs) = (kvs \<noteq> [])"

fun jtruthy :: "json \<Rightarrow> bool" where
  "jtruthy JNull = False"
| "jtruthy (JBool b) = b"
| "jtruthy (JInt i) = (i \<noteq> 0)"
| "jtruthy (JStr s) = (s \<noteq> [])"
| "jtruthy (JList xs) = (xs \<noteq> [])"
| "jtruthy (JDict kvs) = (kvs \<noteq> [])"

text \<open>\<open>a or b\<close> evaluates to \<open>a\<close> when \<open>a\<close> is truthy and to \<open>b\<close> otherwise.\<close>

definition py_or :: "pyval \<Rightarrow> pyval \<Rightarrow> pyval" where
  "py_or a b = (if truthy a then a else b)"

text \<open>An optional argument whose default is \<open>None\<close>.\<close>

definition opt_str :: "string option \<Rightarrow> pyval" where
  "opt_str x = (case x of None \<Rightarrow> PNone | Some s \<Rightarrow> PStr s)"

definition opt_int :: "int option \<Rightarrow> pyval" where
  "opt_int x = (case x of None \<Rightarrow> PNone | Some i \<Rightarrow> PInt i)"

section \<open>Errors\<close>

text \<open>
  The repository has one exception class, \<open>PwintyError\<close>, told apart by its message.
  The other constructors are the built-in exceptions that the code lets through:
  \<open>ValueError\<close> from \<open>response.json()\<close> on a body that is not JSON, \<open>AttributeError\<close>
  and \<open>TypeError\<close> from operations on a value of the wrong type, \<open>IOError\<close> from
  \<open>open\<close>, and \<open>RequestException\<close> from the HTTP library itself.
\<close>

datatype pyerror =
    PwintyError json
  | ValueError
  | AttributeError
  | TypeError
  | IOError
  | RequestException

section \<open>Strings\<close>

text \<open>\<open>str.lower()\<close> on ASCII letters.\<close>

definition lower_char :: "char \<Rightarrow> char" where
  "lower_char c =
     (let n = (of_char c :: nat) in if 65 \<le> n \<and> n \<le> 90 then char_of (n + 32) else c)"

definition lower :: "string \<Rightarrow> string" where
  "lower s = map lower_char s"

text \<open>\<open>str(n)\<close> for an integer: decimal digits, with a minus sign when negative.\<close>

fun str_nat :: "nat \<Rightarrow> string" where
  "str_nat n =
     (if n < 10 then [char_of (48 + n)] else str_nat (n div 10) @ [char_of (48 + n mod 10)])"

declare str_nat.simps [simp del]

definition str_int :: "int \<Rightarrow> string" where
  "str_int i = (if i < 0 then CHR ''-'' # str_nat (nat (- i)) else str_nat (nat i))"

text \<open>Identifiers are documented as \<open>int|str\<close>; \<open>format\<close> renders them with \<open>str\<close>.\<close>

datatype ident = IdInt int | IdStr string

fun str_ident :: "ident \<Rightarrow> string" where
  "str_ident (IdInt i) = str_int i"
| "str_ident (IdStr s) = s"

text \<open>
  \<open>template.format(*args)\<close> for the templates of this module: a replacement field
  \<open>{d}\<close> with one decimal digit \<open>d\<close> is replaced by argument \<open>d\<close>, every other
  character stands for itself. The arguments are inserted as they are and not scanned
  again. A field that names a missing argument raises \<open>IndexError\<close> in Python; no
  template of the module has one, and the model leaves such a field in place.
\<close>

fun format_str :: "string \<Rightarrow> string list \<Rightarrow> string" where
  "format_str (a # d # b # rest) args =
     (let k = (of_char d :: nat) - 48 in
      if a = CHR ''{'' \<and> b = CHR ''}'' \<and> 48 \<le> (of_char d :: nat) \<and> (of_char d :: nat) \<le> 57
           \<and> k < length args
      then (args ! k) @ format_str rest args
      else a # format_str (d # b # rest) args)"
| "format_str (a # rest) args = a # format_str rest args"
| "format_str [] args = []"

text \<open>\<open>needle in haystack\<close> for two strings: a substring test.\<close>

fun starts_with :: "string \<Rightarrow> string \<Rightarrow> bool" where
  "starts_with [] s = True"
| "starts_with (p # ps) [] = False"
| "starts_with (p # ps) (c # cs) = (p = c \<and> starts_with ps cs)"

fun str_contains :: "string \<Rightarrow> string \<Rightarrow> bool" where
  "str_contains needle [] = (needle = [])"
| "str_contains needle (c # cs) = (starts_with needle (c # cs) \<or> str_contains needle cs)"

section \<open>Client, requests, responses\<close>

text \<open>The two attributes that \<open>__init__\<close> sets.\<close>

record client =
  api :: string
  headers :: "(string \<times> string) list"

text \<open>The transport functions of the HTTP library that \<open>getattr\<close> can select.\<close>

datatype http_verb = Get | Options | Head | Post | Put | Patch | Delete

text \<open>
  What the transport function is called with: the function itself, the URL, and the
  keyword arguments \<open>data\<close>, \<open>files\<close> and \<open>headers\<close>.
\<close>

record request =
  req_verb :: http_verb
  req_url :: string
  req_data :: "(string \<times> pyval) list"
  req_files :: pyval
  req_headers :: "(string \<times> string) list"

text \<open>
  A response: its status code and its body as \<open>response.json()\<close> decodes it, \<open>None\<close>
  when the body is not JSON and \<open>json()\<close> raises.
\<close>

record response =
  status_code :: int
  body :: "json option"

definition json_of :: "response \<Rightarrow> pyerror + json" where
  "json_of r = (case body r of None \<Rightarrow> Inl ValueError | Some v \<Rightarrow> Inr v)"

text \<open>
  The outside world. The environment answers requests and decides which paths \<open>open\<close>
  can read. The state records the requests issued so far, in order, and the file
  objects that were opened and not closed.
\<close>

record env =
  transport :: "request \<Rightarrow> pyerror + response"
  readable :: "string \<Rightarrow> bool"

record world =
  sent :: "request list"
  open_files :: "string list"

section \<open>The client\<close>

definition Pwinty :: "string \<Rightarrow> string \<Rightarrow> string option \<Rightarrow> bool \<Rightarrow> client" where
  "Pwinty merchant_id apikey version sandbox =
     (let version = (case version of None \<Rightarrow> ''v2'' | Some v \<Rightarrow> v) in
      \<lparr> api = format_str ''https://{0}.pwinty.com/{1}''
                [if sandbox then ''sandbox'' else ''api'', version],
        headers = [(''X-Pwinty-REST-API-Key'', apikey),
                   (''X-Pwinty-MerchantId'', merchant_id)] \<rparr>)"

text \<open>
  \<open>getattr(requests, verb.lower())\<close>. The endpoint methods pass \<open>GET\<close>, \<open>POST\<close>,
  \<open>PUT\<close> and \<open>DELETE\<close>. Any other name is either no attribute of the library, and
  \<open>getattr\<close> raises \<open>AttributeError\<close>, or an attribute that is no transport function;
  the model answers \<open>AttributeError\<close> for both, so no request is ever issued for them.
\<close>

definition get_http_method :: "string \<Rightarrow> pyerror + http_verb" where
  "get_http_method v =
     (let name = lower v in
      if name = ''get'' then Inr Get
      else if name = ''options'' then Inr Options
      else if name = ''head'' then Inr Head
      else if name = ''post'' then Inr Post
      else if name = ''put'' then Inr Put
      else if name = ''patch'' then Inr Patch
      else if name = ''delete'' then Inr Delete
      else Inl AttributeError)"

text \<open>\<open>x.get(key)\<close>: only a dict has the method.\<close>

definition jget :: "json \<Rightarrow> string \<Rightarrow> pyerror + json" where
  "jget x key =
     (case x of
        JDict kvs \<Rightarrow> (case map_of kvs key of None \<Rightarrow> Inr JNull | Some v \<Rightarrow> Inr v)
      | _ \<Rightarrow> Inl AttributeError)"

text \<open>
  \<open>key in x\<close> for a string key: key membership in a dict, element membership in a list,
  substring test in a string, \<open>TypeError\<close> for a value that is not a container.
\<close>

definition jcontains :: "string \<Rightarrow> json \<Rightarrow> pyerror + bool" where
  "jcontains key x =
     (case x of
        JDict kvs \<Rightarrow> Inr (key \<in> set (map fst kvs))
      | JList xs \<Rightarrow> Inr (JStr key \<in> set xs)
      | JStr s \<Rightarrow> Inr (str_contains key s)
      | _ \<Rightarrow> Inl TypeError)"

definition get_error_message :: "response \<Rightarrow> pyerror + json" where
  "get_error_message r =
     (case json_of r of
        Inl e \<Rightarrow> Inl e
      | Inr b \<Rightarrow>
          (case jget b ''Error'' of
             Inl e \<Rightarrow> Inl e
           | Inr error \<Rightarrow>
               if \<not> jtruthy error then Inr (JStr ''An unknown error occurred'')
               else (case jcontains ''Message'' error of
                       Inl e \<Rightarrow> Inl e
                     | Inr True \<Rightarrow> jget error ''Message''
                     | Inr False \<Rightarrow> Inr (JStr ''An unknown error occurred''))))"

text \<open>
  \<open>_call_api\<close>: one request with the client's headers, then the status checks. The
  request counts as issued once the transport function is called, also when the
  library raises.
\<close>

definition call_api ::
  "env \<Rightarrow> client \<Rightarrow> string \<Rightarrow> string \<Rightarrow> pyval \<Rightarrow> (string \<times> pyval) list \<Rightarrow> world
     \<Rightarrow> (pyerror + response) \<times> world" where
  "call_api e self method path fs kwargs w =
     (case get_http_method method of
        Inl err \<Rightarrow> (Inl err, w)
      | Inr action \<Rightarrow>
          (let req = \<lparr> req_verb = action, req_url = api self @ path, req_data = kwargs,
                       req_files = fs, req_headers = headers self \<rparr>;
               w' = w \<lparr> sent := sent w @ [req] \<rparr>
           in case transport e req of
                Inl err \<Rightarrow> (Inl err, w')
              | Inr response \<Rightarrow>
                  if status_code response = 401
                  then (Inl (PwintyError (JStr ''Authentication Failed'')), w')
                  else if status_code response = 404
                  then (Inl (PwintyError (JStr ''The specified resource could not be found'')), w')
                  else if status_code response = 400 \<or> status_code response \<ge> 500
                  then (case get_error_message response of
                          Inl err \<Rightarrow> (Inl err, w')
                        | Inr m \<Rightarrow> (Inl (PwintyError m), w'))
                  else (Inr response, w')))"

text \<open>
  The call \<open>self._call_api(method, path, **kwargs)\<close> with a caller's keyword dict.
  Python binds the keywords to \<open>_call_api\<close>'s own parameters first: a key \<open>method\<close>
  or \<open>api\<close> collides with a positional argument and raises \<open>TypeError\<close>, a key
  \<open>files\<close> becomes the \<open>files\<close> parameter, and the remaining keys are the body.
\<close>

definition call_api_kwargs ::
  "env \<Rightarrow> client \<Rightarrow> string \<Rightarrow> string \<Rightarrow> (string \<times> pyval) list \<Rightarrow> world
     \<Rightarrow> (pyerror + response) \<times> world" where
  "call_api_kwargs e self method path kwargs w =
     (if ''method'' \<in> set (map fst kwargs) \<or> ''api'' \<in> set (map fst kwargs)
      then (Inl TypeError, w)
      else call_api e self method path
             (case map_of kwargs ''files'' of None \<Rightarrow> PNone | Some f \<Rightarrow> f)
             (filter (\<lambda>kv. fst kv \<noteq> ''files'') kwargs) w)"

text \<open>\<open>.json()\<close> chained on the result of a call.\<close>

definition then_json :: "(pyerror + response) \<times> world \<Rightarrow> (pyerror + json) \<times> world" where
  "then_json r =
     (case r of (Inl err, w) \<Rightarrow> (Inl err, w) | (Inr response, w) \<Rightarrow> (json_of response, w))"

text \<open>\<open>open(path, 'r')\<close>: the file object is recorded as open.\<close>

definition py_open :: "env \<Rightarrow> string \<Rightarrow> world \<Rightarrow> (pyerror + pyval) \<times> world" where
  "py_open e path w =
     (if readable e path then (Inr (PFile path), w \<lparr> open_files := open_files w @ [path] \<rparr>)
      else (Inl IOError, w))"

subsection \<open>Endpoint methods\<close>

definition get_orders :: "env \<Rightarrow> client \<Rightarrow> world \<Rightarrow> (pyerror + json) \<times> world" where
  "get_orders e self w = then_json (call_api e self ''GET'' ''/Orders'' PNone [] w)"

definition get_order :: "env \<Rightarrow> client \<Rightarrow> ident \<Rightarrow> world \<Rightarrow> (pyerror + json) \<times> world" where
  "get_order e self order_id w =
     then_json (call_api e self ''GET'' (format_str ''/Orders/{0}'' [str_ident order_id]) PNone [] w)"

definition create_order ::
  "env \<Rightarrow> client \<Rightarrow> (string \<times> pyval) list \<Rightarrow> world \<Rightarrow> (pyerror + json) \<times> world" where
  "create_order e self kwargs w = then_json (call_api_kwargs e self ''POST'' ''/Orders'' kwargs w)"

definition update_order ::
  "env \<Rightarrow> client \<Rightarrow> ident \<Rightarrow> (string \<times> pyval) list \<Rightarrow> world \<Rightarrow> (pyerror + json) \<times> world" where
  "update_order e self order_id kwargs w =
     (case call_api_kwargs e self ''PUT'' (format_str ''/Orders/{0}'' [str_ident order_id]) kwargs w of
        (Inl err, w') \<Rightarrow> (Inl err, w')
      | (Inr response, w') \<Rightarrow>
          if status_code response = 403
          then (Inl (PwintyError (JStr ''Order submitted and can not be updated'')), w')
          else (json_of response, w'))"

definition update_order_status ::
  "env \<Rightarrow> client \<Rightarrow> ident \<Rightarrow> string \<Rightarrow> world \<Rightarrow> (pyerror + json) \<times> world" where
  "update_order_status e self order_id status w =
     (case call_api e self ''POST'' (format_str ''/Orders/{0}/Status'' [str_ident order_id]) PNone
             [(''status'', PStr status)] w of
        (Inl err, w') \<Rightarrow> (Inl err, w')
      | (Inr response, w') \<Rightarrow>
          if status_code response = 403
          then (Inl (PwintyError (JStr ''Can not move to specified status from current'')), w')
          else (json_of response, w'))"

definition get_submission_status ::
  "env \<Rightarrow> client \<Rightarrow> ident \<Rightarrow> world \<Rightarrow> (pyerror + json) \<times> world" where
  "get_submission_status e self order_id w =
     then_json (call_api e self ''GET''
       (format_str ''/Orders/{0}/SubmissionStatus'' [str_ident order_id]) PNone [] w)"

definition get_countries :: "env \<Rightarrow> client \<Rightarrow> world \<Rightarrow> (pyerror + json) \<times> world" where
  "get_countries e self w = then_json (call_api e self ''GET'' ''/Country'' PNone [] w)"

definition get_photos :: "env \<Rightarrow> client \<Rightarrow> ident \<Rightarrow> world \<Rightarrow> (pyerror + json) \<times> world" where
  "get_photos e self order_id w =
     then_json (call_api e self ''GET''
       (format_str ''/Orders/{0}/Photos'' [str_ident order_id]) PNone [] w)"

definition get_photo ::
  "env \<Rightarrow> client \<Rightarrow> ident \<Rightarrow> ident \<Rightarrow> world \<Rightarrow> (pyerror + json) \<times> world" where
  "get_photo e self order_id photo_id w =
     then_json (call_api e self ''GET''
       (format_str ''/Orders/{0}/Photos/{1}'' [str_ident order_id, str_ident photo_id]) PNone [] w)"

text \<open>The form fields that \<open>add_photo\<close> builds, in the order of the dict literal.\<close>

definition photo_data ::
  "string \<Rightarrow> string option \<Rightarrow> int option \<Rightarrow> string option \<Rightarrow> int option \<Rightarrow> string option
     \<Rightarrow> (string \<times> pyval) list" where
  "photo_data ptype url copies sizing price_to_user md5hash =
     [(''type'', PStr ptype),
      (''url'', opt_str url),
      (''copies'', py_or (opt_int copies) (PInt 1)),
      (''sizing'', py_or (opt_str sizing) (PStr ''Crop'')),
      (''priceToUser'', opt_int price_to_user),
      (''md5Hash'', opt_str md5hash)]"

text \<open>
  \<open>files = None\<close>, then \<open>if imgfile: files = {'file': open(imgfile, 'r')}\<close>.
\<close>

definition photo_files :: "env \<Rightarrow> string option \<Rightarrow> world \<Rightarrow> (pyerror + pyval) \<times> world" where
  "photo_files e imgfile w =
     (if truthy (opt_str imgfile)
      then (case imgfile of
              None \<Rightarrow> (Inr PNone, w)
            | Some path \<Rightarrow>
                (case py_open e path w of
                   (Inl err, w') \<Rightarrow> (Inl err, w')
                 | (Inr f, w') \<Rightarrow> (Inr (PDict [(''file'', f)]), w')))
      else (Inr PNone, w))"

definition add_photo ::
  "env \<Rightarrow> client \<Rightarrow> ident \<Rightarrow> string \<Rightarrow> string option \<Rightarrow> int option \<Rightarrow> string option
     \<Rightarrow> int option \<Rightarrow> string option \<Rightarrow> string option \<Rightarrow> world \<Rightarrow> (pyerror + json) \<times> world" where
  "add_photo e self order_id ptype url copies sizing price_to_user md5hash imgfile w =
     (if url = None \<and> imgfile = None
      then (Inl (PwintyError (JStr ''File or URL for the image is required'')), w)
      else if url \<noteq> None \<and> imgfile \<noteq> None
      then (Inl (PwintyError (JStr ''Cannot use both a URL and a file'')), w)
      else
        (let d = photo_data ptype url copies sizing price_to_user md5hash in
         case photo_files e imgfile w of
           (Inl err, w1) \<Rightarrow> (Inl err, w1)
         | (Inr fs, w1) \<Rightarrow>
             (case call_api e self ''POST''
                     (format_str ''/Orders/{0}/Photos'' [str_ident order_id]) fs d w1 of
                (Inl err, w2) \<Rightarrow> (Inl err, w2)
              | (Inr response, w2) \<Rightarrow>
                  if status_code response = 403
                  then (Inl (PwintyError (JStr ''Cannot add photos to this order'')), w2)
                  else (json_of response, w2))))"

definition delete_photo ::
  "env \<Rightarrow> client \<Rightarrow> ident \<Rightarrow> ident \<Rightarrow> world \<Rightarrow> (pyerror + json) \<times> world" where
  "delete_photo e self order_id photo_id w =
     (case call_api e self ''DELETE''
             (format_str ''/Orders/{0}/Photos/{1}'' [str_ident order_id, str_ident photo_id])
             PNone [] w of
        (Inl err, w') \<Rightarrow> (Inl err, w')
      | (Inr response, w') \<Rightarrow>
          if status_code response = 403
          then (Inl (PwintyError (JStr ''Cannot remove photos from this order'')), w')
          else (json_of response, w'))"

definition get_catalogue ::
  "env \<Rightarrow> client \<Rightarrow> string \<Rightarrow> string \<Rightarrow> world \<Rightarrow> (pyerror + json) \<times> world" where
  "get_catalogue e self country_code quality_level w =
     (case call_api e self ''GET''
             (format_str ''/Catalogue/{0}/{1}'' [country_code, quality_level]) PNone [] w of
        (Inl err, w') \<Rightarrow> (Inl err, w')
      | (Inr response, w') \<Rightarrow> (json_of response, w'))"

subsection \<open>Any endpoint call\<close>

text \<open>
  A call of one of the twelve public methods with its arguments, and the function that
  runs it. This is only a way to quantify over the endpoint methods.
\<close>

datatype endpoint_call =
    GetOrders
  | GetOrder ident
  | CreateOrder "(string \<times> pyval) list"
  | UpdateOrder ident "(string \<times> pyval) list"
  | UpdateOrderStatus ident string
  | GetSubmissionStatus ident
  | GetCountries
  | GetPhotos ident
  | GetPhoto ident ident
  | AddPhoto ident string "string option" "int option" "string option" "int option"
      "string option" "string option"
  | DeletePhoto ident ident
  | GetCatalogue string string

fun invoke :: "env \<Rightarrow> client \<Rightarrow> endpoint_call \<Rightarrow> world \<Rightarrow> (pyerror + json) \<times> world" where
  "invoke e self GetOrders w = get_orders e self w"
| "invoke e self (GetOrder i) w = get_order e self i w"
| "invoke e self (CreateOrder kw) w = create_order e self kw w"
| "invoke e self (UpdateOrder i kw) w = update_order e self i kw w"
| "invoke e self (UpdateOrderStatus i s) w = update_order_status e self i s w"
| "invoke e self (GetSubmissionStatus i) w = get_submission_status e self i w"
| "invoke e self GetCountries w = get_countries e self w"
| "invoke e self (GetPhotos i) w = get_photos e self i w"
| "invoke e self (GetPhoto i p) w = get_photo e self i p w"
| "invoke e self (AddPhoto i t u c s p m f) w = add_photo e self i t u c s p m f w"
| "invoke e self (DeletePhoto i p) w = delete_photo e self i p w"
| "invoke e self (GetCatalogue c q) w = get_catalogue e self c q w"

section \<open>Reference notions and test fixtures\<close>

text \<open>
  The vendor's message as the specification words it: the \<open>Message\<close> member of the
  \<open>Error\<close> object of a decoded body, when there is one.
\<close>

definition vendor_message :: "json \<Rightarrow> json option" where
  "vendor_message b =
     (case b of
        JDict kvs \<Rightarrow>
          (case map_of kvs ''Error'' of Some (JDict ekvs) \<Rightarrow> map_of ekvs ''Message'' | _ \<Rightarrow> None)
      | _ \<Rightarrow> None)"

text \<open>
  The bodies that \<open>_get_error_message\<close> can read without a built-in exception: a JSON
  object whose \<open>Error\<close> member is absent, falsy, an object, a string without the
  substring \<open>Message\<close>, or a list without the element \<open>'Message'\<close>.
\<close>

definition error_member_readable :: "json \<Rightarrow> bool" where
  "error_member_readable v =
     (case v of
        JDict kvs \<Rightarrow> True
      | JStr s \<Rightarrow> \<not> str_contains ''Message'' s
      | JList xs \<Rightarrow> JStr ''Message'' \<notin> set xs
      | _ \<Rightarrow> \<not> jtruthy v)"

definition error_body_readable :: "response \<Rightarrow> bool" where
  "error_body_readable r =
     (case body r of
        Some (JDict kvs) \<Rightarrow>
          (case map_of kvs ''Error'' of None \<Rightarrow> True | Some v \<Rightarrow> error_member_readable v)
      | _ \<Rightarrow> False)"

text \<open>The requests that a call added to the log.\<close>

definition new_requests :: "world \<Rightarrow> world \<Rightarrow> request list" where
  "new_requests w w' = drop (length (sent w)) (sent w')"

text \<open>Whether \<open>add_photo\<close> would open a file that cannot be read.\<close>

definition open_fails :: "env \<Rightarrow> string option \<Rightarrow> bool" where
  "open_fails e imgfile =
     (case imgfile of None \<Rightarrow> False | Some path \<Rightarrow> path \<noteq> [] \<and> \<not> readable e path)"

text \<open>The \<open>files\<close> argument that \<open>add_photo\<close> passes on when the file opens.\<close>

definition photo_files_arg :: "string option \<Rightarrow> pyval" where
  "photo_files_arg imgfile =
     (case imgfile of
        None \<Rightarrow> PNone
      | Some path \<Rightarrow> if path = [] then PNone else PDict [(''file'', PFile path)])"

text \<open>
  Fixtures for concrete runs: a server that answers every request with the same
  response, a file system where every path or no path is readable, a fresh world and
  the client of the test suite.
\<close>

definition answer_with :: "response \<Rightarrow> request \<Rightarrow> pyerror + response" where
  "answer_with r req = Inr r"

definition all_readable :: "string \<Rightarrow> bool" where
  "all_readable path = True"

definition none_readable :: "string \<Rightarrow> bool" where
  "none_readable path = False"

definition fresh :: world where
  "fresh = \<lparr> sent = [], open_files = [] \<rparr>"

definition test_client :: client where
  "test_client = Pwinty ''123456'' ''7890123'' None True"

text \<open>
  The second half of \<open>_get_error_message\<close>, from \<open>if error and ...\<close> on, as a
  function of the \<open>Error\<close> member.
\<close>

definition read_member :: "json \<Rightarrow> pyerror + json" where
  "read_member v =
     (if \<not> jtruthy v then Inr (JStr ''An unknown error occurred'')
      else (case jcontains ''Message'' v of
              Inl e \<Rightarrow> Inl e
            | Inr True \<Rightarrow> jget v ''Message''
            | Inr False \<Rightarrow> Inr (JStr ''An unknown error occurred'')))"

text \<open>
  What one call may add to the log: at most one request, appended, carrying the
  client's headers.
\<close>

definition issued_by :: "client \<Rightarrow> world \<Rightarrow> world \<Rightarrow> bool" where
  "issued_by self w w' =
     (sent w' = sent w @ new_requests w w' \<and> length (new_requests w w') \<le> 1
      \<and> list_all (\<lambda>r. req_headers r = headers self) (new_requests w w'))"



section \<open>Lemmas\<close>

subsection \<open>Selecting the transport function\<close>

lemma get_http_method_GET [simp]: "get_http_method ''GET'' = Inr Get"
  by code_simp

lemma get_http_method_POST [simp]: "get_http_method ''POST'' = Inr Post"
  by code_simp

lemma get_http_method_PUT [simp]: "get_http_method ''PUT'' = Inr Put"
  by code_simp

lemma get_http_method_DELETE [simp]: "get_http_method ''DELETE'' = Inr Delete"
  by code_simp


subsection \<open>Reading the error message\<close>

lemma key_in_dict: "(key \<in> fst ` set kvs) = (map_of kvs key \<noteq> None)"
  by (simp add: map_of_eq_None_iff)

lemma read_member_readable:
  assumes "error_member_readable v"
  shows "read_member v =
           Inr (case (case v of JDict ekvs \<Rightarrow> map_of ekvs ''Message'' | _ \<Rightarrow> None) of
                  Some m \<Rightarrow> m | None \<Rightarrow> JStr ''An unknown error occurred'')"
proof (cases v)
  case (JDict ekvs)
  then show ?thesis
    by (cases "map_of ekvs ''Message''")
       (auto simp: read_member_def jcontains_def jget_def key_in_dict)
qed (use assms in \<open>simp_all add: read_member_def jcontains_def error_member_readable_def\<close>)

lemma read_member_unreadable:
  assumes "\<not> error_member_readable v"
  shows "read_member v \<in> {Inl AttributeError, Inl TypeError}"
  using assms
  by (cases v) (auto simp: read_member_def jcontains_def jget_def error_member_readable_def)

lemma get_error_message_dict:
  assumes "body r = Some (JDict kvs)"
  shows "get_error_message r =
           (case map_of kvs ''Error'' of
              None \<Rightarrow> Inr (JStr ''An unknown error occurred'')
            | Some v \<Rightarrow> read_member v)"
  using assms
  by (simp add: get_error_message_def json_of_def jget_def read_member_def split: option.splits)

lemma get_error_message_readable:
  assumes "error_body_readable r"
  shows "get_error_message r =
           Inr (case vendor_message (the (body r)) of
                  Some m \<Rightarrow> m | None \<Rightarrow> JStr ''An unknown error occurred'')"
proof -
  from assms obtain kvs where b: "body r = Some (JDict kvs)"
    by (auto simp: error_body_readable_def split: option.splits json.splits)
  show ?thesis
  proof (cases "map_of kvs ''Error''")
    case None
    with b show ?thesis by (simp add: get_error_message_dict vendor_message_def)
  next
    case (Some v)
    with assms b have "error_member_readable v" by (simp add: error_body_readable_def)
    from read_member_readable[OF this] b Some show ?thesis
      by (cases v) (simp_all add: get_error_message_dict vendor_message_def)
  qed
qed

lemma get_error_message_unreadable:
  assumes "\<not> error_body_readable r"
  shows "get_error_message r \<in> {Inl ValueError, Inl AttributeError, Inl TypeError}"
proof (cases "body r")
  case None
  then show ?thesis by (simp add: get_error_message_def json_of_def)
next
  case (Some b)
  show ?thesis
  proof (cases b)
    case (JDict kvs)
    with Some have b: "body r = Some (JDict kvs)" by simp
    with assms obtain v where v: "map_of kvs ''Error'' = Some v" "\<not> error_member_readable v"
      by (auto simp: error_body_readable_def split: option.splits)
    from read_member_unreadable[OF v(2)] b v(1) show ?thesis
      by (auto simp: get_error_message_dict)
  qed (use Some in \<open>simp_all add: get_error_message_def json_of_def jget_def\<close>)
qed

subsection \<open>Dispatch\<close>

lemma call_api_unfold:
  assumes "get_http_method method = Inr action"
  shows "call_api e self method path fs kwargs w =
     (let req = \<lparr> req_verb = action, req_url = api self @ path, req_data = kwargs,
                       req_files = fs, req_headers = headers self \<rparr>;
               w' = w \<lparr> sent := sent w @ [req] \<rparr>
           in case transport e req of
                Inl err \<Rightarrow> (Inl err, w')
              | Inr response \<Rightarrow>
                  if status_code response = 401
                  then (Inl (PwintyError (JStr ''Authentication Failed'')), w')
                  else if status_code response = 404
                  then (Inl (PwintyError (JStr ''The specified resource could not be found'')), w')
                  else if status_code response = 400 \<or> status_code response \<ge> 500
                  then (case get_error_message response of
                          Inl err \<Rightarrow> (Inl err, w')
                        | Inr m \<Rightarrow> (Inl (PwintyError m), w'))
                  else (Inr response, w'))"
  using assms by (simp add: call_api_def)

lemma call_api_snd:
  "snd (call_api e self m p fs kw w) =
     (case get_http_method m of
        Inl err \<Rightarrow> w
      | Inr a \<Rightarrow> w \<lparr> sent := sent w @ [\<lparr> req_verb = a, req_url = api self @ p, req_data = kw,
                                       req_files = fs, req_headers = headers self \<rparr>] \<rparr>)"
  by (simp add: call_api_def Let_def split: sum.splits)

lemma call_api_kwargs_snd:
  "snd (call_api_kwargs e self m p kw w) =
     (if ''method'' \<in> set (map fst kw) \<or> ''api'' \<in> set (map fst kw) then w
      else snd (call_api e self m p
                  (case map_of kw ''files'' of None \<Rightarrow> PNone | Some f \<Rightarrow> f)
                  (filter (\<lambda>kv. fst kv \<noteq> ''files'') kw) w))"
  by (simp add: call_api_kwargs_def)

lemma then_json_snd: "snd (then_json x) = snd x"
  by (simp add: then_json_def split: prod.splits sum.splits)

lemma issued_by_refl: "issued_by self w w"
  by (simp add: issued_by_def new_requests_def)

lemma issued_by_call_api: "issued_by self w (snd (call_api e self m p fs kw w))"
  by (simp add: call_api_snd issued_by_def new_requests_def split: sum.splits)

lemma issued_by_call_api_kwargs: "issued_by self w (snd (call_api_kwargs e self m p kw w))"
  by (simp add: call_api_kwargs_snd issued_by_call_api issued_by_refl)

lemma issued_by_same_sent: "sent w1 = sent w \<Longrightarrow> issued_by self w1 w' \<Longrightarrow> issued_by self w w'"
  by (simp add: issued_by_def new_requests_def)

subsection \<open>Effects of the endpoint methods\<close>

lemma update_order_snd:
  "snd (update_order e self i kw w)
     = snd (call_api_kwargs e self ''PUT'' (format_str ''/Orders/{0}'' [str_ident i]) kw w)"
  by (simp add: update_order_def split: prod.splits sum.splits)

lemma update_order_status_snd:
  "snd (update_order_status e self i s w)
     = snd (call_api e self ''POST'' (format_str ''/Orders/{0}/Status'' [str_ident i]) PNone
              [(''status'', PStr s)] w)"
  by (simp add: update_order_status_def split: prod.splits sum.splits)

lemma delete_photo_snd:
  "snd (delete_photo e self i p w)
     = snd (call_api e self ''DELETE''
              (format_str ''/Orders/{0}/Photos/{1}'' [str_ident i, str_ident p]) PNone [] w)"
  by (simp add: delete_photo_def split: prod.splits sum.splits)

lemma get_catalogue_snd:
  "snd (get_catalogue e self c q w)
     = snd (call_api e self ''GET'' (format_str ''/Catalogue/{0}/{1}'' [c, q]) PNone [] w)"
  by (simp add: get_catalogue_def split: prod.splits sum.splits)

lemma photo_files_result:
  "photo_files e imgfile w =
     (if open_fails e imgfile then (Inl IOError, w)
      else (Inr (photo_files_arg imgfile),
            w \<lparr> open_files := open_files w @
                   (case imgfile of None \<Rightarrow> [] | Some path \<Rightarrow> if path = [] then [] else [path]) \<rparr>))"
  by (cases imgfile)
     (simp_all add: photo_files_def open_fails_def photo_files_arg_def py_open_def opt_str_def)

lemma photos_path: "format_str ''/Orders/{0}/Photos'' [s] = ''/Orders/'' @ s @ ''/Photos''"
  by simp

lemma add_photo_snd:
  "snd (add_photo e self i t u c s p m f w) =
     (if (u = None) = (f = None) \<or> open_fails e f then w
      else snd (call_api e self ''POST'' (''/Orders/'' @ str_ident i @ ''/Photos'')
                  (photo_files_arg f) (photo_data t u c s p m)
                  (w \<lparr> open_files := open_files w @
                         (case f of None \<Rightarrow> [] | Some path \<Rightarrow> if path = [] then [] else [path]) \<rparr>)))"
  by (auto simp: add_photo_def photo_files_result photos_path Let_def simp del: format_str.simps
        split: prod.splits sum.splits)

lemma issued_by_invoke: "issued_by self w (snd (invoke e self c w))"
proof (cases c)
  case (AddPhoto i t u cp s p m f)
  have "issued_by self w (snd (add_photo e self i t u cp s p m f w))"
    unfolding add_photo_snd
    by (auto intro: issued_by_refl issued_by_same_sent[OF _ issued_by_call_api])
  with AddPhoto show ?thesis by simp
qed (simp_all add: get_orders_def get_order_def create_order_def get_submission_status_def
       get_countries_def get_photos_def get_photo_def then_json_snd update_order_snd
       update_order_status_snd delete_photo_snd get_catalogue_snd
       issued_by_call_api issued_by_call_api_kwargs del: format_str.simps)

subsection \<open>Adding a photo\<close>

lemma add_photo_neither:
  "add_photo e self i t None c s p m None w
     = (Inl (PwintyError (JStr ''File or URL for the image is required'')), w)"
  by (simp add: add_photo_def)

lemma add_photo_both:
  "add_photo e self i t (Some u) c s p m (Some f) w
     = (Inl (PwintyError (JStr ''Cannot use both a URL and a file'')), w)"
  by (simp add: add_photo_def)

lemma add_photo_open_fails:
  assumes "(u = None) \<noteq> (f = None)" and "open_fails e f"
  shows "add_photo e self i t u c s p m f w = (Inl IOError, w)"
  using assms by (auto simp: add_photo_def photo_files_result)

lemma add_photo_request:
  assumes "(u = None) \<noteq> (f = None)" and "\<not> open_fails e f"
  shows "new_requests w (snd (add_photo e self i t u c s p m f w))
           = [\<lparr> req_verb = Post, req_url = api self @ ''/Orders/'' @ str_ident i @ ''/Photos'',
                req_data = photo_data t u c s p m, req_files = photo_files_arg f,
                req_headers = headers self \<rparr>]"
  using assms by (auto simp: add_photo_snd call_api_snd new_requests_def)

lemma add_photo_changes_world:
  assumes "(u = None) \<noteq> (f = None)" and "\<not> open_fails e f"
  shows "snd (add_photo e self i t u c s p m f w) \<noteq> w"
proof
  assume "snd (add_photo e self i t u c s p m f w) = w"
  with add_photo_request [OF assms, of w self i t c s p m] show False
    by (simp add: new_requests_def)
qed

lemma photo_data_keys:
  "map fst (photo_data t u c s p m)
     = [''type'', ''url'', ''copies'', ''sizing'', ''priceToUser'', ''md5Hash'']"
  by (simp add: photo_data_def)

lemma photo_data_copies:
  "map_of (photo_data t u c s p m) ''copies''
     = Some (PInt (case c of None \<Rightarrow> 1 | Some n \<Rightarrow> if n = 0 then 1 else n))"
  by (simp add: photo_data_def py_or_def opt_int_def split: option.splits)

lemma photo_data_sizing:
  "map_of (photo_data t u c s p m) ''sizing''
     = Some (PStr (case s of None \<Rightarrow> ''Crop'' | Some x \<Rightarrow> if x = [] then ''Crop'' else x))"
  by (simp add: photo_data_def py_or_def opt_str_def split: option.splits)

subsection \<open>Results of the endpoint methods\<close>



lemma call_api_forbidden:
  assumes "get_http_method method = Inr action"
      and "transport e \<lparr> req_verb = action, req_url = api self @ path, req_data = kwargs,
                          req_files = fs, req_headers = headers self \<rparr> = Inr r"
      and "status_code r = 403"
  shows "fst (call_api e self method path fs kwargs w) = Inr r"
  using assms by (simp add: call_api_unfold)






subsection \<open>From the answer of the server to the result\<close>




lemma call_api_outcome_readable:
  assumes "get_http_method verb = Inr action"
      and "transport e \<lparr> req_verb = action, req_url = api self @ path, req_data = kwargs,
                          req_files = fs, req_headers = headers self \<rparr> = Inr r"
      and "error_body_readable r"
  shows "fst (call_api e self verb path fs kwargs w) =
           (if status_code r = 401 then Inl (PwintyError (JStr ''Authentication Failed''))
            else if status_code r = 404
            then Inl (PwintyError (JStr ''The specified resource could not be found''))
            else if status_code r = 400 \<or> status_code r \<ge> 500
            then Inl (PwintyError (case vendor_message (the (body r)) of
                                     Some m \<Rightarrow> m
                                   | None \<Rightarrow> JStr ''An unknown error occurred''))
            else Inr r)"
  using assms by (simp add: call_api_unfold get_error_message_readable)

section \<open>Claims\<close>

subsection \<open>C1: status codes and the outcome of a dispatch\<close>

text \<open>
  Claim C1 says that a response with status 400, or 500 and above, always fails with
  a \<open>PwintyError\<close> that carries the vendor's message or \<open>'An unknown error occurred'\<close>.
  \<open>_call_api\<close> attempts this with \<open>raise PwintyError(self._get_error_message(response))\<close>,
  but a 502 response whose body is not JSON makes \<open>response.json()\<close> raise while the
  message is computed, and the call ends with \<open>ValueError\<close>. The same status with a
  JSON object that has no \<open>Error\<close> member takes the fallback as the claim says.
\<close>

theorem call_api_non_json_error_body:
  "fst (call_api \<lparr> transport = answer_with \<lparr> status_code = 502, body = None \<rparr>,
                   readable = all_readable \<rparr> test_client ''GET'' ''/Orders'' PNone [] fresh)
     = Inl ValueError
   \<and> fst (call_api \<lparr> transport = answer_with \<lparr> status_code = 502, body = Some (JDict []) \<rparr>,
                     readable = all_readable \<rparr> test_client ''GET'' ''/Orders'' PNone [] fresh)
     = Inl (PwintyError (JStr ''An unknown error occurred''))"
  by (simp add: call_api_unfold answer_with_def get_error_message_def json_of_def jget_def)

subsection \<open>C2: validation of the image source\<close>

text \<open>
  Claim C2. \<open>add_photo\<close> with neither \<open>url\<close> nor \<open>imgfile\<close> fails with the
  \<open>required\<close> error, and with both it fails with the \<open>cannot use both\<close> error; in
  both cases the world is returned as it was, so no request was issued and no file was
  opened. With exactly one of the two the call goes on: it issues exactly one \<open>POST\<close>
  to \<open>/Orders/<id>/Photos\<close> whose body has \<open>copies = 1\<close> when \<open>copies\<close> is unset and
  \<open>sizing = 'Crop'\<close> when \<open>sizing\<close> is unset. The one way the call can stop between
  validation and the request is \<open>open\<close> raising on an unreadable file.
\<close>

theorem add_photo_validation:
  "(url = None \<and> imgfile = None \<longrightarrow>
      add_photo e self order_id ptype url copies sizing price_to_user md5hash imgfile w
        = (Inl (PwintyError (JStr ''File or URL for the image is required'')), w))
   \<and> (url \<noteq> None \<and> imgfile \<noteq> None \<longrightarrow>
      add_photo e self order_id ptype url copies sizing price_to_user md5hash imgfile w
        = (Inl (PwintyError (JStr ''Cannot use both a URL and a file'')), w))
   \<and> ((url = None) \<noteq> (imgfile = None) \<longrightarrow>
        (if open_fails e imgfile
         then add_photo e self order_id ptype url copies sizing price_to_user md5hash imgfile w
                = (Inl IOError, w)
         else new_requests w (snd (add_photo e self order_id ptype url copies sizing
                                     price_to_user md5hash imgfile w))
                = [\<lparr> req_verb = Post,
                     req_url = api self @ ''/Orders/'' @ str_ident order_id @ ''/Photos'',
                     req_data = photo_data ptype url copies sizing price_to_user md5hash,
                     req_files = photo_files_arg imgfile,
                     req_headers = headers self \<rparr>])
        \<and> (copies = None \<longrightarrow>
             map_of (photo_data ptype url copies sizing price_to_user md5hash) ''copies''
               = Some (PInt 1))
        \<and> (sizing = None \<longrightarrow>
             map_of (photo_data ptype url copies sizing price_to_user md5hash) ''sizing''
               = Some (PStr ''Crop'')))"
  by (auto simp: add_photo_neither add_photo_both add_photo_open_fails add_photo_request
        photo_data_copies photo_data_sizing)

theorem add_photo_validation_witness:
  "add_photo \<lparr> transport = answer_with \<lparr> status_code = 200, body = Some (JDict []) \<rparr>,
               readable = all_readable \<rparr>
     test_client (IdInt 5) ''4x6'' None None None None None None fresh
     = (Inl (PwintyError (JStr ''File or URL for the image is required'')), fresh)
   \<and> add_photo \<lparr> transport = answer_with \<lparr> status_code = 200, body = Some (JDict []) \<rparr>,
                 readable = all_readable \<rparr>
       test_client (IdInt 5) ''4x6'' (Some ''http://x/a.jpg'') None None None None
       (Some ''a.jpg'') fresh
     = (Inl (PwintyError (JStr ''Cannot use both a URL and a file'')), fresh)
   \<and> new_requests fresh (snd (add_photo
         \<lparr> transport = answer_with \<lparr> status_code = 200, body = Some (JDict []) \<rparr>,
           readable = all_readable \<rparr>
         test_client (IdInt 5) ''4x6'' (Some ''http://x/a.jpg'') None None None None None fresh))
     = [\<lparr> req_verb = Post, req_url = ''https://sandbox.pwinty.com/v2/Orders/5/Photos'',
          req_data = [(''type'', PStr ''4x6''), (''url'', PStr ''http://x/a.jpg''),
                      (''copies'', PInt 1), (''sizing'', PStr ''Crop''),
                      (''priceToUser'', PNone), (''md5Hash'', PNone)],
          req_files = PNone,
          req_headers = [(''X-Pwinty-REST-API-Key'', ''7890123''),
                         (''X-Pwinty-MerchantId'', ''123456'')] \<rparr>]
   \<and> add_photo \<lparr> transport = answer_with \<lparr> status_code = 200, body = Some (JDict []) \<rparr>,
                 readable = none_readable \<rparr>
       test_client (IdInt 5) ''4x6'' None None None None None (Some ''a.jpg'') fresh
     = (Inl IOError, fresh)"
proof -
  have five: "str_int 5 = ''5''"
    by code_simp
  show ?thesis
    using add_photo_validation [of None None
            "\<lparr> transport = answer_with \<lparr> status_code = 200, body = Some (JDict []) \<rparr>,
               readable = all_readable \<rparr>"
            test_client "IdInt 5" "''4x6''" None None None None fresh]
          add_photo_validation [of "Some ''http://x/a.jpg''" "Some ''a.jpg''"
            "\<lparr> transport = answer_with \<lparr> status_code = 200, body = Some (JDict []) \<rparr>,
               readable = all_readable \<rparr>"
            test_client "IdInt 5" "''4x6''" None None None None fresh]
          add_photo_validation [of "Some ''http://x/a.jpg''" None
            "\<lparr> transport = answer_with \<lparr> status_code = 200, body = Some (JDict []) \<rparr>,
               readable = all_readable \<rparr>"
            test_client "IdInt 5" "''4x6''" None None None None fresh]
          add_photo_validation [of None "Some ''a.jpg''"
            "\<lparr> transport = answer_with \<lparr> status_code = 200, body = Some (JDict []) \<rparr>,
               readable = none_readable \<rparr>"
            test_client "IdInt 5" "''4x6''" None None None None fresh]
    by (simp add: open_fails_def none_readable_def photo_files_arg_def photo_data_def
          py_or_def opt_str_def opt_int_def test_client_def Pwinty_def five)
qed

subsection \<open>C3: status 403\<close>




subsection \<open>C4: the base URL\<close>

text \<open>
  Claim C4. The base URL is \<open>https://\<close>, then \<open>sandbox\<close> or \<open>api\<close> according to the
  sandbox flag, then \<open>.pwinty.com/\<close>, then the version, which is \<open>v2\<close> when unset and
  the given string otherwise; the two examples of the claim are instances.
\<close>

theorem Pwinty_base_url:
  "api (Pwinty merchant_id apikey version sandbox)
     = ''https://'' @ (if sandbox then ''sandbox'' else ''api'') @ ''.pwinty.com/''
         @ (case version of None \<Rightarrow> ''v2'' | Some v \<Rightarrow> v)
   \<and> api (Pwinty merchant_id apikey None True) = ''https://sandbox.pwinty.com/v2''
   \<and> api (Pwinty merchant_id apikey (Some ''v3'') False) = ''https://api.pwinty.com/v3''"
  by (simp add: Pwinty_def split: option.splits)

theorem Pwinty_base_url_witness:
  "api (Pwinty ''123456'' ''7890123'' None True) = ''https://sandbox.pwinty.com/v2''
   \<and> api (Pwinty ''123456'' ''7890123'' (Some ''v3'') False) = ''https://api.pwinty.com/v3''
   \<and> api (Pwinty ''123456'' ''7890123'' (Some ''v2.1'') True) = ''https://sandbox.pwinty.com/v2.1''
   \<and> api (Pwinty ''123456'' ''7890123'' None False) = ''https://api.pwinty.com/v2''"
  using Pwinty_base_url [of "''123456''" "''7890123''" None True]
        Pwinty_base_url [of "''123456''" "''7890123''" "Some ''v2.1''" True]
        Pwinty_base_url [of "''123456''" "''7890123''" None False]
  by simp

subsection \<open>C5: authentication headers\<close>

text \<open>
  Claim C5. The client's header mapping has exactly the two keys
  \<open>X-Pwinty-REST-API-Key\<close> and \<open>X-Pwinty-MerchantId\<close>, mapped to the API key and the
  merchant ID given at construction, and every request that any of the twelve endpoint
  methods issues is appended to the log and carries exactly this mapping.
\<close>

theorem requests_carry_auth_headers:
  "headers (Pwinty merchant_id apikey version sandbox)
     = [(''X-Pwinty-REST-API-Key'', apikey), (''X-Pwinty-MerchantId'', merchant_id)]
   \<and> sent (snd (invoke e (Pwinty merchant_id apikey version sandbox) c w))
       = sent w @ new_requests w (snd (invoke e (Pwinty merchant_id apikey version sandbox) c w))
   \<and> list_all (\<lambda>r. req_headers r
                      = [(''X-Pwinty-REST-API-Key'', apikey), (''X-Pwinty-MerchantId'', merchant_id)])
        (new_requests w (snd (invoke e (Pwinty merchant_id apikey version sandbox) c w)))"
proof -
  have h: "headers (Pwinty merchant_id apikey version sandbox)
             = [(''X-Pwinty-REST-API-Key'', apikey), (''X-Pwinty-MerchantId'', merchant_id)]"
    by (simp add: Pwinty_def Let_def)
  from issued_by_invoke [of "Pwinty merchant_id apikey version sandbox" w e c] h
  show ?thesis
    by (simp add: issued_by_def)
qed

theorem requests_carry_auth_headers_witness:
  "map req_headers (new_requests fresh (snd (invoke
       \<lparr> transport = answer_with \<lparr> status_code = 200, body = Some (JList []) \<rparr>,
         readable = all_readable \<rparr>
       (Pwinty ''123456'' ''7890123'' None True) (GetPhoto (IdInt 7) (IdStr ''p1'')) fresh)))
     = [[(''X-Pwinty-REST-API-Key'', ''7890123''), (''X-Pwinty-MerchantId'', ''123456'')]]"
proof -
  have n: "new_requests fresh (snd (get_photo
       \<lparr> transport = answer_with \<lparr> status_code = 200, body = Some (JList []) \<rparr>,
         readable = all_readable \<rparr>
       (Pwinty ''123456'' ''7890123'' None True) (IdInt 7) (IdStr ''p1'') fresh))
     = [\<lparr> req_verb = Get,
          req_url = api (Pwinty ''123456'' ''7890123'' None True)
                      @ format_str ''/Orders/{0}/Photos/{1}'' [str_int 7, ''p1''],
          req_data = [], req_files = PNone,
          req_headers = headers (Pwinty ''123456'' ''7890123'' None True) \<rparr>]"
    by (simp add: get_photo_def then_json_snd call_api_snd new_requests_def fresh_def
          del: format_str.simps)
  show ?thesis
    using requests_carry_auth_headers [of "''123456''" "''7890123''" None True
            "\<lparr> transport = answer_with \<lparr> status_code = 200, body = Some (JList []) \<rparr>,
               readable = all_readable \<rparr>" "GetPhoto (IdInt 7) (IdStr ''p1'')" fresh]
    by (simp add: n del: format_str.simps)
qed

subsection \<open>C6: body parameters\<close>

text \<open>
  Claim C6. A dispatch whose method names a transport function issues exactly one
  request; its body is the keyword dict it was given, unchanged, and the empty dict
  when no keyword was given.
\<close>

theorem call_api_forwards_body:
  assumes "get_http_method method = Inr action"
  shows "new_requests w (snd (call_api e self method path fs kwargs w))
           = [\<lparr> req_verb = action, req_url = api self @ path, req_data = kwargs,
                req_files = fs, req_headers = headers self \<rparr>]
         \<and> map req_data (new_requests w (snd (call_api e self method path fs kwargs w)))
             = [kwargs]
         \<and> map req_data (new_requests w (snd (call_api e self method path fs [] w))) = [[]]"
  using assms by (simp add: call_api_snd new_requests_def)

theorem call_api_forwards_body_witness:
  "get_http_method ''POST'' = Inr Post
   \<and> map req_data (new_requests fresh (snd (call_api
         \<lparr> transport = answer_with \<lparr> status_code = 200, body = Some (JDict []) \<rparr>,
           readable = all_readable \<rparr> test_client ''POST'' [] PNone
         [(''order_id'', PInt 23), (''address'', PStr ''123 Fake St'')] fresh)))
       = [[(''order_id'', PInt 23), (''address'', PStr ''123 Fake St'')]]
   \<and> map req_data (new_requests fresh (snd (call_api
         \<lparr> transport = answer_with \<lparr> status_code = 200, body = Some (JDict []) \<rparr>,
           readable = all_readable \<rparr> test_client ''POST'' [] PNone [] fresh)))
       = [[]]"
proof -
  have m: "get_http_method ''POST'' = Inr Post"
    by simp
  show ?thesis
    using call_api_forwards_body [OF m, of fresh
            "\<lparr> transport = answer_with \<lparr> status_code = 200, body = Some (JDict []) \<rparr>,
               readable = all_readable \<rparr>" test_client "[]" PNone
            "[(''order_id'', PInt 23), (''address'', PStr ''123 Fake St'')]"]
    by (simp add: m)
qed

subsection \<open>C7: the uploaded file\<close>

text \<open>
  Claim C7 as stated fails: \<open>add_photo\<close> has no \<open>close\<close> and no \<open>with\<close> block. After
  an upload of \<open>a.jpg\<close>, the file object is still open when the call returns (status
  200) and when it raises (status 403).
\<close>

theorem add_photo_leaves_file_open_counterexample:
  "open_files (snd (add_photo
       \<lparr> transport = answer_with \<lparr> status_code = 200, body = Some (JDict []) \<rparr>,
         readable = all_readable \<rparr>
       test_client (IdInt 1) ''4x6'' None None None None None (Some ''a.jpg'') fresh))
     = [''a.jpg'']
   \<and> open_files (snd (add_photo
       \<lparr> transport = answer_with \<lparr> status_code = 403, body = Some (JDict []) \<rparr>,
         readable = all_readable \<rparr>
       test_client (IdInt 1) ''4x6'' None None None None None (Some ''a.jpg'') fresh))
     = [''a.jpg'']"
  by (simp add: add_photo_snd open_fails_def all_readable_def call_api_snd fresh_def)

text \<open>
  Claim C7, amended. \<open>add_photo\<close> closes nothing. The files open after the call are
  those open before it, followed by the file it opened, if it opened one: that is when
  exactly one of \<open>url\<close> and \<open>imgfile\<close> is given, \<open>imgfile\<close> is a non-empty path and
  \<open>open\<close> succeeds. This holds for every outcome of the request.
\<close>

theorem add_photo_never_closes:
  "open_files (snd (add_photo e self order_id ptype url copies sizing price_to_user md5hash
                      imgfile w))
     = open_files w @
         (if (url = None) \<noteq> (imgfile = None) \<and> \<not> open_fails e imgfile
          then (case imgfile of None \<Rightarrow> [] | Some path \<Rightarrow> if path = [] then [] else [path])
          else [])"
  by (auto simp: add_photo_snd call_api_snd open_fails_def split: option.splits)

theorem add_photo_never_closes_witness:
  "open_files (snd (add_photo
       \<lparr> transport = answer_with \<lparr> status_code = 500, body = None \<rparr>,
         readable = all_readable \<rparr>
       test_client (IdInt 1) ''4x6'' None None None None None (Some ''a.jpg'')
       \<lparr> sent = [], open_files = [''earlier.png''] \<rparr>))
     = [''earlier.png'', ''a.jpg'']"
  using add_photo_never_closes [of
          "\<lparr> transport = answer_with \<lparr> status_code = 500, body = None \<rparr>,
             readable = all_readable \<rparr>"
          test_client "IdInt 1" "''4x6''" None None None None None "Some ''a.jpg''"
          "\<lparr> sent = [], open_files = [''earlier.png''] \<rparr>"]
  by (simp add: open_fails_def all_readable_def)

subsection \<open>C8: falsy values take the defaults\<close>

text \<open>
  Claim C8. In the request that \<open>add_photo\<close> issues, \<open>copies\<close> is 1 when the argument
  is \<open>None\<close> or 0 and the argument otherwise; \<open>sizing\<close> is \<open>'Crop'\<close> when the argument
  is \<open>None\<close> or the empty string and the argument otherwise. So the body never has
  \<open>copies = 0\<close> or an empty \<open>sizing\<close>.
\<close>

theorem add_photo_falsy_defaults:
  assumes "(url = None) \<noteq> (imgfile = None)" and "\<not> open_fails e imgfile"
  shows "map (\<lambda>r. (map_of (req_data r) ''copies'', map_of (req_data r) ''sizing''))
           (new_requests w (snd (add_photo e self order_id ptype url copies sizing
                                   price_to_user md5hash imgfile w)))
         = [(Some (PInt (case copies of None \<Rightarrow> 1 | Some n \<Rightarrow> if n = 0 then 1 else n)),
             Some (PStr (case sizing of None \<Rightarrow> ''Crop''
                                      | Some x \<Rightarrow> if x = [] then ''Crop'' else x)))]
         \<and> list_all (\<lambda>r. map_of (req_data r) ''copies'' \<noteq> Some (PInt 0)
                          \<and> map_of (req_data r) ''sizing'' \<noteq> Some (PStr []))
             (new_requests w (snd (add_photo e self order_id ptype url copies sizing
                                     price_to_user md5hash imgfile w)))"
  by (simp add: add_photo_request [OF assms] photo_data_copies photo_data_sizing
        split: option.splits)

theorem add_photo_falsy_defaults_witness:
  "map (\<lambda>r. (map_of (req_data r) ''copies'', map_of (req_data r) ''sizing''))
     (new_requests fresh (snd (add_photo
        \<lparr> transport = answer_with \<lparr> status_code = 200, body = Some (JDict []) \<rparr>,
          readable = all_readable \<rparr>
        test_client (IdInt 5) ''4x6'' (Some ''http://x/a.jpg'') (Some 0) (Some []) None None
        None fresh)))
     = [(Some (PInt 1), Some (PStr ''Crop''))]
   \<and> map (\<lambda>r. (map_of (req_data r) ''copies'', map_of (req_data r) ''sizing''))
     (new_requests fresh (snd (add_photo
        \<lparr> transport = answer_with \<lparr> status_code = 200, body = Some (JDict []) \<rparr>,
          readable = all_readable \<rparr>
        test_client (IdInt 5) ''4x6'' (Some ''http://x/a.jpg'') (Some 3) (Some ''ShrinkToFit'')
        None None None fresh)))
     = [(Some (PInt 3), Some (PStr ''ShrinkToFit''))]"
proof -
  have one: "(Some ''http://x/a.jpg'' = None) \<noteq> ((None :: string option) = None)"
    by simp
  have opens: "\<not> open_fails
       \<lparr> transport = answer_with \<lparr> status_code = 200, body = Some (JDict []) \<rparr>,
         readable = all_readable \<rparr> None"
    by (simp add: open_fails_def)
  show ?thesis
    using add_photo_falsy_defaults [OF one opens, of fresh test_client "IdInt 5" "''4x6''"
            "Some 0" "Some []" None None]
          add_photo_falsy_defaults [OF one opens, of fresh test_client "IdInt 5" "''4x6''"
            "Some 3" "Some ''ShrinkToFit''" None None]
    by simp
qed

subsection \<open>C9: validation tests identity with None\<close>

text \<open>
  Claim C9. \<open>add_photo\<close> stops with the \<open>required\<close> error before any request exactly
  when \<open>url\<close> and \<open>imgfile\<close> are both \<open>None\<close>, and with the \<open>cannot use both\<close> error
  before any request exactly when neither is \<open>None\<close>; an empty string counts as given.
  With \<open>url = None\<close> and \<open>imgfile = ''\<close> the call passes validation, opens no file,
  and issues one request with \<open>files = None\<close> and \<open>url = None\<close> in the body.
\<close>

theorem add_photo_validation_by_identity:
  "(add_photo e self order_id ptype url copies sizing price_to_user md5hash imgfile w
      = (Inl (PwintyError (JStr ''File or URL for the image is required'')), w))
     = (url = None \<and> imgfile = None)
   \<and> (add_photo e self order_id ptype url copies sizing price_to_user md5hash imgfile w
        = (Inl (PwintyError (JStr ''Cannot use both a URL and a file'')), w))
       = (url \<noteq> None \<and> imgfile \<noteq> None)
   \<and> new_requests w (snd (add_photo e self order_id ptype None copies sizing price_to_user
                            md5hash (Some []) w))
       = [\<lparr> req_verb = Post,
            req_url = api self @ ''/Orders/'' @ str_ident order_id @ ''/Photos'',
            req_data = photo_data ptype None copies sizing price_to_user md5hash,
            req_files = PNone,
            req_headers = headers self \<rparr>]
   \<and> map_of (photo_data ptype None copies sizing price_to_user md5hash) ''url'' = Some PNone
   \<and> open_files (snd (add_photo e self order_id ptype None copies sizing price_to_user
                         md5hash (Some []) w))
       = open_files w"
proof -
  let ?run = "add_photo e self order_id ptype url copies sizing price_to_user md5hash imgfile w"
  have required: "(?run = (Inl (PwintyError (JStr ''File or URL for the image is required'')), w))
                    = (url = None \<and> imgfile = None)"
  proof (cases "(url = None) \<noteq> (imgfile = None)")
    case True
    show ?thesis
    proof (cases "open_fails e imgfile")
      case True
      with \<open>(url = None) \<noteq> (imgfile = None)\<close> show ?thesis
        by (auto simp: add_photo_open_fails)
    next
      case False
      from add_photo_changes_world [OF True False, of self order_id ptype copies sizing
             price_to_user md5hash w] True
      show ?thesis
        by (cases ?run) auto
    qed
  next
    case False
    then show ?thesis
      by (cases url; cases imgfile) (simp_all add: add_photo_neither add_photo_both)
  qed
  have both: "(?run = (Inl (PwintyError (JStr ''Cannot use both a URL and a file'')), w))
                = (url \<noteq> None \<and> imgfile \<noteq> None)"
  proof (cases "(url = None) \<noteq> (imgfile = None)")
    case True
    show ?thesis
    proof (cases "open_fails e imgfile")
      case True
      with \<open>(url = None) \<noteq> (imgfile = None)\<close> show ?thesis
        by (auto simp: add_photo_open_fails)
    next
      case False
      from add_photo_changes_world [OF True False, of self order_id ptype copies sizing
             price_to_user md5hash w] True
      show ?thesis
        by (cases ?run) auto
    qed
  next
    case False
    then show ?thesis
      by (cases url; cases imgfile) (simp_all add: add_photo_neither add_photo_both)
  qed
  have empty: "(None = (None :: string option)) \<noteq> (Some ([] :: string) = None)"
              "\<not> open_fails e (Some [])"
    by (simp_all add: open_fails_def)
  have request: "new_requests w (snd (add_photo e self order_id ptype None copies sizing
                    price_to_user md5hash (Some []) w))
       = [\<lparr> req_verb = Post,
            req_url = api self @ ''/Orders/'' @ str_ident order_id @ ''/Photos'',
            req_data = photo_data ptype None copies sizing price_to_user md5hash,
            req_files = PNone,
            req_headers = headers self \<rparr>]"
    by (simp add: add_photo_request [OF empty] photo_files_arg_def)
  have url_none: "map_of (photo_data ptype None copies sizing price_to_user md5hash) ''url''
                    = Some PNone"
    by (simp add: photo_data_def opt_str_def)
  have no_file: "open_files (snd (add_photo e self order_id ptype None copies sizing
                    price_to_user md5hash (Some []) w)) = open_files w"
    by (simp add: add_photo_snd call_api_snd open_fails_def)
  from required both request url_none no_file show ?thesis
    by simp
qed

theorem add_photo_validation_by_identity_witness:
  "add_photo \<lparr> transport = answer_with \<lparr> status_code = 200, body = Some (JDict []) \<rparr>,
               readable = none_readable \<rparr>
     test_client (IdInt 5) ''4x6'' (Some []) None None None None None fresh
     \<noteq> (Inl (PwintyError (JStr ''File or URL for the image is required'')), fresh)
   \<and> add_photo \<lparr> transport = answer_with \<lparr> status_code = 200, body = Some (JDict []) \<rparr>,
               readable = none_readable \<rparr>
     test_client (IdInt 5) ''4x6'' (Some []) None None None None (Some []) fresh
     = (Inl (PwintyError (JStr ''Cannot use both a URL and a file'')), fresh)
   \<and> map (\<lambda>r. (req_files r, map_of (req_data r) ''url''))
       (new_requests fresh (snd (add_photo
          \<lparr> transport = answer_with \<lparr> status_code = 200, body = Some (JDict []) \<rparr>,
            readable = none_readable \<rparr>
          test_client (IdInt 5) ''4x6'' None None None None None (Some []) fresh)))
     = [(PNone, Some PNone)]"
  using add_photo_validation_by_identity [of
          "\<lparr> transport = answer_with \<lparr> status_code = 200, body = Some (JDict []) \<rparr>,
             readable = none_readable \<rparr>"
          test_client "IdInt 5" "''4x6''" "Some []" None None None None None fresh]
        add_photo_validation_by_identity [of
          "\<lparr> transport = answer_with \<lparr> status_code = 200, body = Some (JDict []) \<rparr>,
             readable = none_readable \<rparr>"
          test_client "IdInt 5" "''4x6''" "Some []" None None None None "Some []" fresh]
        add_photo_validation_by_identity [of
          "\<lparr> transport = answer_with \<lparr> status_code = 200, body = Some (JDict []) \<rparr>,
             readable = none_readable \<rparr>"
          test_client "IdInt 5" "''4x6''" None None None None None None fresh]
  by simp

subsection \<open>C10: the six body fields\<close>

text \<open>
  Claim C10. The body of the request that \<open>add_photo\<close> issues has exactly the keys
  \<open>type\<close>, \<open>url\<close>, \<open>copies\<close>, \<open>sizing\<close>, \<open>priceToUser\<close>, \<open>md5Hash\<close>, in this order.
  \<open>url\<close>, \<open>priceToUser\<close> and \<open>md5Hash\<close> are \<open>None\<close> when not given (\<open>copies\<close> and
  \<open>sizing\<close> then hold their defaults); when a local file is used, \<open>url\<close> is present
  with the value \<open>None\<close>.
\<close>

theorem add_photo_body_keys:
  assumes "(url = None) \<noteq> (imgfile = None)" and "\<not> open_fails e imgfile"
  shows "map req_data (new_requests w (snd (add_photo e self order_id ptype url copies sizing
                                              price_to_user md5hash imgfile w)))
         = [[(''type'', PStr ptype),
             (''url'', (case url of None \<Rightarrow> PNone | Some u \<Rightarrow> PStr u)),
             (''copies'', PInt (case copies of None \<Rightarrow> 1 | Some n \<Rightarrow> if n = 0 then 1 else n)),
             (''sizing'', PStr (case sizing of None \<Rightarrow> ''Crop''
                                             | Some x \<Rightarrow> if x = [] then ''Crop'' else x)),
             (''priceToUser'', (case price_to_user of None \<Rightarrow> PNone | Some p \<Rightarrow> PInt p)),
             (''md5Hash'', (case md5hash of None \<Rightarrow> PNone | Some h \<Rightarrow> PStr h))]]
         \<and> map (map fst \<circ> req_data)
               (new_requests w (snd (add_photo e self order_id ptype url copies sizing
                                       price_to_user md5hash imgfile w)))
             = [[''type'', ''url'', ''copies'', ''sizing'', ''priceToUser'', ''md5Hash'']]
         \<and> (if imgfile = None then True
             else map (\<lambda>r. map_of (req_data r) ''url'')
                    (new_requests w (snd (add_photo e self order_id ptype url copies sizing
                                            price_to_user md5hash imgfile w)))
                  = [Some PNone])"
  using assms
  by (auto simp: add_photo_request [OF assms] photo_data_def py_or_def opt_str_def opt_int_def
        split: option.splits)

theorem add_photo_body_keys_witness:
  "map req_data (new_requests fresh (snd (add_photo
      \<lparr> transport = answer_with \<lparr> status_code = 200, body = Some (JDict []) \<rparr>,
        readable = all_readable \<rparr>
      test_client (IdInt 5) ''4x6'' None None None None None (Some ''a.jpg'') fresh)))
     = [[(''type'', PStr ''4x6''), (''url'', PNone), (''copies'', PInt 1),
         (''sizing'', PStr ''Crop''), (''priceToUser'', PNone), (''md5Hash'', PNone)]]"
proof -
  have one: "((None :: string option) = None) \<noteq> (Some ''a.jpg'' = None)"
    by simp
  have opens: "\<not> open_fails
       \<lparr> transport = answer_with \<lparr> status_code = 200, body = Some (JDict []) \<rparr>,
         readable = all_readable \<rparr> (Some ''a.jpg'')"
    by (simp add: open_fails_def all_readable_def)
  show ?thesis
    using add_photo_body_keys [OF one opens, of fresh test_client "IdInt 5" "''4x6''"
            None None None None]
    by simp
qed

end
